theory Spec2Isabelle
  imports Complex_Main
begin

section \<open>Python values the program relies on\<close>

text \<open>
  The program is \<^verbatim>\<open>src/main.py\<close>. Its strings are modelled as \<^typ>\<open>string\<close>, one
  \<^typ>\<open>char\<close> per code point below 256; Python's unbounded \<^verbatim>\<open>int\<close> is \<^typ>\<open>int\<close>.
  A Python \<^verbatim>\<open>float\<close> is modelled by the \<^typ>\<open>real\<close> number it approximates: rounding,
  infinities and NaN are outside the model.
  An exception is a value: a computation returns \<open>Inl e\<close> when it raises \<open>e\<close> and
  \<open>Inr v\<close> when it returns \<open>v\<close>.
\<close>

datatype error = IndexError | ValueError | ZeroDivisionError

text \<open>\<^verbatim>\<open>xs[ 0 ]\<close>: raises \<^verbatim>\<open>IndexError\<close> on the empty list.\<close>

definition subscript0 :: "'a list \<Rightarrow> error + 'a" where
  "subscript0 xs = (case xs of [] \<Rightarrow> Inl IndexError | x # _ \<Rightarrow> Inr x)"

text \<open>\<^verbatim>\<open>try: v = body  except IndexError: v = dflt\<close>: only \<^verbatim>\<open>IndexError\<close> is caught.\<close>

definition except_IndexError :: "error + 'a \<Rightarrow> 'a \<Rightarrow> error + 'a" where
  "except_IndexError body dflt =
     (case body of Inl IndexError \<Rightarrow> Inr dflt | Inl e \<Rightarrow> Inl e | Inr v \<Rightarrow> Inr v)"

subsection \<open>The pattern \<^verbatim>\<open>([0-9.,]+)\<close>\<close>

definition is_digit :: "char \<Rightarrow> bool" where
  "is_digit c = (c \<in> set ''0123456789'')"

definition in_class :: "char \<Rightarrow> bool" where
  "in_class c = (is_digit c \<or> c = CHR ''.'' \<or> c = CHR '','')"

text \<open>
  \<^verbatim>\<open>re.findall( r"([0-9.,]+)", s )\<close>: the maximal runs of characters of the class, from
  left to right (the \<^verbatim>\<open>+\<close> is greedy and matches do not overlap).
\<close>

function findall :: "string \<Rightarrow> string list" where
  "findall s =
     (case dropWhile (\<lambda>c. \<not> in_class c) s of
        [] \<Rightarrow> []
      | c # t \<Rightarrow> takeWhile in_class (c # t) # findall (dropWhile in_class (c # t)))"
  by pat_completeness auto
termination
proof (relation "measure length")
  show "wf (measure length)" by simp
next
  fix s :: string and c t
  assume eq: "dropWhile (\<lambda>c. \<not> in_class c) s = c # t"
  have "length (dropWhile in_class (c # t)) \<le> length (c # t)"
    by (rule length_dropWhile_le)
  moreover have "in_class c"
    using eq hd_dropWhile [of "\<lambda>c. \<not> in_class c" s] by auto
  ultimately have "length (dropWhile in_class (c # t)) < length (c # t)"
    by (simp add: le_imp_less_Suc length_dropWhile_le)
  moreover have "length (c # t) \<le> length s"
    using length_dropWhile_le [of "\<lambda>c. \<not> in_class c" s] eq by simp
  ultimately show "(dropWhile in_class (c # t), s) \<in> measure length"
    by simp
qed

declare findall.simps [simp del]

subsection \<open>\<^verbatim>\<open>int\<close> and \<^verbatim>\<open>float\<close> of a matched run\<close>

definition digit_value :: "char \<Rightarrow> nat" where
  "digit_value c = of_char c - 48"

definition decimal :: "string \<Rightarrow> nat" where
  "decimal s = foldl (\<lambda>a c. 10 * a + digit_value c) 0 s"

text \<open>
  \<^verbatim>\<open>int( s )\<close> for a string \<open>s\<close> over the characters \<^verbatim>\<open>0-9 . ,\<close> (all that the pattern
  can hand over): the decimal value when \<open>s\<close> is a non-empty string of digits,
  \<^verbatim>\<open>ValueError\<close> otherwise. Signs, blanks and underscores, which \<^verbatim>\<open>int\<close> also
  accepts, cannot occur in a match. The limit that recent interpreters put on the
  length of a digit string is not modelled.
\<close>

definition py_int :: "string \<Rightarrow> error + int" where
  "py_int s = (if s \<noteq> [] \<and> list_all is_digit s then Inr (int (decimal s)) else Inl ValueError)"

text \<open>
  \<^verbatim>\<open>float( s )\<close> for a string over the same characters: digits, then at most one
  point followed by digits, with a digit somewhere; \<^verbatim>\<open>ValueError\<close> otherwise.
\<close>

definition py_float :: "string \<Rightarrow> error + real" where
  "py_float s =
     (let ip = takeWhile is_digit s; rest = dropWhile is_digit s in
      case rest of
        [] \<Rightarrow> (if ip = [] then Inl ValueError else Inr (real (decimal ip)))
      | c # fp \<Rightarrow>
          if c = CHR ''.'' \<and> list_all is_digit fp \<and> \<not> (ip = [] \<and> fp = [])
          then Inr (real (decimal ip) + real (decimal fp) / 10 ^ length fp)
          else Inl ValueError)"

subsection \<open>\<^verbatim>\<open>str.strip\<close> and \<^verbatim>\<open>in\<close>\<close>

text \<open>The code points below 256 for which \<^verbatim>\<open>str.isspace\<close> holds.\<close>

definition isspace :: "char \<Rightarrow> bool" where
  "isspace c = (of_char c \<in> set [9, 10, 11, 12, 13, 28, 29, 30, 31, 32, 133, 160 :: nat])"

definition strip :: "string \<Rightarrow> string" where
  "strip s = rev (dropWhile isspace (rev (dropWhile isspace s)))"

fun startswith :: "string \<Rightarrow> string \<Rightarrow> bool" where
  "startswith s [] = True"
| "startswith [] (p # ps) = False"
| "startswith (c # cs) (p # ps) = (c = p \<and> startswith cs ps)"

text \<open>\<^verbatim>\<open>sub in s\<close> for strings: \<open>sub\<close> occurs in \<open>s\<close> as a contiguous, case-sensitive run.\<close>

fun str_contains :: "string \<Rightarrow> string \<Rightarrow> bool" where
  "str_contains [] sub = (sub = [])"
| "str_contains (c # cs) sub = (startswith (c # cs) sub \<or> str_contains cs sub)"

section \<open>The class \<^verbatim>\<open>Information\<close>\<close>

record Information =
  description :: string
  number :: int
  rate :: real
  info_type :: string

text \<open>
  \<^verbatim>\<open>Information.__init__\<close>: both numbers are read from the first match of the
  pattern; a missing match (\<^verbatim>\<open>IndexError\<close>) gives 0, any other exception leaves
  the constructor.
\<close>

definition parse_number :: "string \<Rightarrow> error + int" where
  "parse_number txt =
     except_IndexError
       (case subscript0 (findall txt) of Inl e \<Rightarrow> Inl e | Inr m \<Rightarrow> py_int m) 0"

definition parse_rate :: "string \<Rightarrow> error + real" where
  "parse_rate txt =
     except_IndexError
       (case subscript0 (findall txt) of Inl e \<Rightarrow> Inl e | Inr m \<Rightarrow> py_float m) 0"

definition Information_init :: "string \<Rightarrow> string \<Rightarrow> string \<Rightarrow> string \<Rightarrow> error + Information" where
  "Information_init descr num rt ty =
     (case parse_number num of
        Inl e \<Rightarrow> Inl e
      | Inr n \<Rightarrow>
          (case parse_rate rt of
             Inl e \<Rightarrow> Inl e
           | Inr r \<Rightarrow> Inr \<lparr>description = descr, number = n, rate = r, info_type = ty\<rparr>))"

section \<open>The parsed document\<close>

text \<open>
  A document as \<^verbatim>\<open>bs4\<close> hands it over: a tree of tags, with text at the leaves;
  \<open>Comment\<close> stands for the leaves that \<^verbatim>\<open>.text\<close> leaves out. Attributes play no part
  in the program. The file is read and parsed by the library; the functions below start
  from the parsed tree, and \<open>load_file\<close> takes the parsed document where the source
  takes the file name.
\<close>

datatype html = Tag string "html list" | NavigableString string | Comment string

text \<open>\<^verbatim>\<open>.descendants\<close>: every node below a tag, in document order.\<close>

fun descendants :: "html \<Rightarrow> html list" where
  "descendants (Tag name children) = concat (map (\<lambda>c. c # descendants c) children)"
| "descendants (NavigableString s) = []"
| "descendants (Comment s) = []"

definition is_tag :: "string \<Rightarrow> html \<Rightarrow> bool" where
  "is_tag name el = (case el of Tag n _ \<Rightarrow> n = name | _ \<Rightarrow> False)"

definition find_all :: "string \<Rightarrow> html \<Rightarrow> html list" where
  "find_all name el = filter (is_tag name) (descendants el)"

text \<open>\<^verbatim>\<open>row.strong\<close>, that is \<^verbatim>\<open>row.find( "strong" )\<close>: the first such tag below, or \<^verbatim>\<open>None\<close>.\<close>

definition find_tag :: "string \<Rightarrow> html \<Rightarrow> html option" where
  "find_tag name el = (case find_all name el of [] \<Rightarrow> None | t # _ \<Rightarrow> Some t)"

text \<open>\<^verbatim>\<open>.text\<close>: the text nodes below, concatenated; comments are left out.\<close>

definition get_text :: "html \<Rightarrow> string" where
  "get_text el = concat (map (\<lambda>d. case d of NavigableString s \<Rightarrow> s | _ \<Rightarrow> []) (descendants el))"

text \<open>The truth value of a tag (\<^verbatim>\<open>if el\<close>): \<^verbatim>\<open>Tag.__bool__\<close> answers \<^verbatim>\<open>True\<close> for every tag.\<close>

definition tag_bool :: "html \<Rightarrow> bool" where
  "tag_bool el = True"

section \<open>\<^verbatim>\<open>parse_html_table\<close> and \<^verbatim>\<open>clean_table_title\<close>\<close>

record parsed_table =
  cols :: "string list list"
  data :: "string list list"

text \<open>The list comprehension of \<^verbatim>\<open>parse_html_table\<close>: the cells of one row.\<close>

definition row_cells :: "html \<Rightarrow> string list" where
  "row_cells row = map (\<lambda>el. strip (get_text el)) (filter tag_bool (find_all ''td'' row))"

definition parse_html_table :: "html \<Rightarrow> parsed_table" where
  "parse_html_table table =
     foldl (\<lambda>result row.
              if find_tag ''strong'' row = None
              then result\<lparr>data := data result @ [row_cells row]\<rparr>
              else result\<lparr>cols := cols result @ [row_cells row]\<rparr>)
           \<lparr>cols = [], data = []\<rparr>
           (find_all ''tr'' table)"

definition clean_table_title :: "html \<Rightarrow> string" where
  "clean_table_title title = strip (get_text title)"

section \<open>\<^verbatim>\<open>load_file\<close>\<close>

text \<open>
  \<^verbatim>\<open>row.extend( [ "" ] * ( 3 - len( row ) ) )\<close>: a list times a number below 1 is
  empty, as is \<open>replicate\<close> of the truncated difference.
\<close>

definition extend_row :: "string list \<Rightarrow> string list" where
  "extend_row row = row @ replicate (3 - length row) []"

definition row_Information :: "string list \<Rightarrow> string \<Rightarrow> error + Information" where
  "row_Information row table_title =
     (let row' = extend_row row
      in Information_init (row' ! 0) (row' ! 1) (row' ! 2) table_title)"

text \<open>The inner loop: one \<^verbatim>\<open>Information\<close> per data row, appended to \<open>result\<close>.\<close>

fun append_rows :: "Information list \<Rightarrow> string list list \<Rightarrow> string \<Rightarrow> error + Information list" where
  "append_rows result [] table_title = Inr result"
| "append_rows result (row # rows) table_title =
     (case row_Information row table_title of
        Inl e \<Rightarrow> Inl e
      | Inr info \<Rightarrow> append_rows (result @ [info]) rows table_title)"

text \<open>The outer loop, over the pairs that \<^verbatim>\<open>zip\<close> yields.\<close>

fun append_tables :: "Information list \<Rightarrow> (parsed_table \<times> string) list \<Rightarrow> error + Information list" where
  "append_tables result [] = Inr result"
| "append_tables result ((parsed_table, table_title) # pairs) =
     (case append_rows result (data parsed_table) table_title of
        Inl e \<Rightarrow> Inl e
      | Inr result' \<Rightarrow> append_tables result' pairs)"

definition read_tables :: "html list \<Rightarrow> html list \<Rightarrow> error + Information list" where
  "read_tables tables titles =
     append_tables [] (zip (map parse_html_table tables) (map clean_table_title titles))"

text \<open>The rates of the counties: \<^verbatim>\<open>"county" in el.info_type\<close> selects the records.\<close>

definition is_county :: "Information \<Rightarrow> bool" where
  "is_county el = str_contains (info_type el) ''county''"

definition number_cases :: "Information list \<Rightarrow> int" where
  "number_cases result = sum_list (map number (filter is_county result))"

text \<open>\<^verbatim>\<open>a / b\<close> on two \<^verbatim>\<open>int\<close>s: true division, \<^verbatim>\<open>ZeroDivisionError\<close> when \<open>b\<close> is 0.\<close>

definition truediv :: "int \<Rightarrow> int \<Rightarrow> error + real" where
  "truediv a b = (if b = 0 then Inl ZeroDivisionError else Inr (real_of_int a / real_of_int b))"

text \<open>
  The loop \<^verbatim>\<open>county.rate = county.number / number_cases * 100\<close> assigns to the selected
  objects of \<open>result\<close> in list order; the list itself keeps its order and length.
\<close>

fun set_rates :: "int \<Rightarrow> Information list \<Rightarrow> error + Information list" where
  "set_rates n_cases [] = Inr []"
| "set_rates n_cases (el # rest) =
     (if is_county el then
        (case truediv (number el) n_cases of
           Inl e \<Rightarrow> Inl e
         | Inr q \<Rightarrow>
             (case set_rates n_cases rest of
                Inl e \<Rightarrow> Inl e
              | Inr rest' \<Rightarrow> Inr (el\<lparr>rate := q * 100\<rparr> # rest')))
      else
        (case set_rates n_cases rest of
           Inl e \<Rightarrow> Inl e
         | Inr rest' \<Rightarrow> Inr (el # rest')))"

text \<open>\<^verbatim>\<open>load_file\<close> from the two \<^verbatim>\<open>find_all\<close> results on.\<close>

definition load_tables :: "html list \<Rightarrow> html list \<Rightarrow> error + Information list" where
  "load_tables tables titles =
     (case read_tables tables titles of
        Inl e \<Rightarrow> Inl e
      | Inr result \<Rightarrow> set_rates (number_cases result) result)"

definition load_file :: "html \<Rightarrow> error + Information list" where
  "load_file file_content =
     load_tables (find_all ''table'' file_content) (find_all ''h2'' file_content)"

section \<open>\<^verbatim>\<open>Information.__str__\<close>\<close>

definition digit_char :: "nat \<Rightarrow> char" where
  "digit_char d = ''0123456789'' ! d"

text \<open>\<^verbatim>\<open>str\<close> of an \<^verbatim>\<open>int\<close>: decimal digits, after a minus sign below 0.\<close>

function str_nat :: "nat \<Rightarrow> string" where
  "str_nat n = (if n < 10 then [digit_char n] else str_nat (n div 10) @ [digit_char (n mod 10)])"
  by pat_completeness auto
termination
  by (relation "measure id") auto

declare str_nat.simps [simp del]

definition py_str :: "int \<Rightarrow> string" where
  "py_str i = (if i < 0 then CHR ''-'' # str_nat (nat (- i)) else str_nat (nat i))"

text \<open>
  Rounding to the nearest integer, a tie going to the even neighbour: the rounding of
  the format \<^verbatim>\<open>{:.3f}\<close>.
\<close>

definition round_half_even :: "real \<Rightarrow> int" where
  "round_half_even x =
     (let f = \<lfloor>x\<rfloor>; d = x - of_int f
      in if d < 1 / 2 then f else if 1 / 2 < d then f + 1 else if even f then f else f + 1)"

text \<open>
  The format \<^verbatim>\<open>{:.3f}\<close> on the real number: sign, integer part, point, three decimals,
  rounded to the nearest thousandth (0.0625 gives \<^verbatim>\<open>0.062\<close>).
\<close>

definition format_3f :: "real \<Rightarrow> string" where
  "format_3f x =
     (let m = nat (round_half_even (\<bar>x\<bar> * 1000))
      in (if x < 0 then ''-'' else []) @ str_nat (m div 1000) @ ''.'' @
         [digit_char (m div 100 mod 10), digit_char (m div 10 mod 10), digit_char (m mod 10)])"

definition Information_str :: "Information \<Rightarrow> string" where
  "Information_str self =
     info_type self @ '' - '' @ description self @ '': '' @ py_str (number self) @
     '' ('' @ format_3f (rate self) @ ''%)''"

section \<open>Predicates the properties are stated with\<close>

text \<open>A string without white space at either end.\<close>

definition trimmed :: "string \<Rightarrow> bool" where
  "trimmed s = (case s of [] \<Rightarrow> True | c # _ \<Rightarrow> \<not> isspace c \<and> \<not> isspace (last s))"

text \<open>A row with a \<^verbatim>\<open>strong\<close> tag somewhere below it.\<close>

definition has_strong :: "html \<Rightarrow> bool" where
  "has_strong row = list_ex (is_tag ''strong'') (descendants row)"

text \<open>What the rate loop makes of one record, for a total other than 0.\<close>

definition new_rate :: "int \<Rightarrow> Information \<Rightarrow> Information" where
  "new_rate n_cases el =
     (if is_county el then el\<lparr>rate := real_of_int (number el) / real_of_int n_cases * 100\<rparr> else el)"

text \<open>What every record of the program satisfies: neither number is below 0.\<close>

definition nonneg :: "Information \<Rightarrow> bool" where
  "nonneg el = (0 \<le> number el \<and> 0 \<le> rate el)"




section \<open>Documents used as examples\<close>

definition td :: "string \<Rightarrow> html" where
  "td s = Tag ''td'' [NavigableString s]"

text \<open>The snapshot 2020_03_19 with the counts Dublin 10, Cork 5, Clare 0.\<close>

definition table_2020_03_19 :: html where
  "table_2020_03_19 =
     Tag ''table''
       [Tag ''tr'' [Tag ''td'' [Tag ''strong'' [NavigableString ''County'']],
                    Tag ''td'' [Tag ''strong'' [NavigableString ''Cases'']]],
        Tag ''tr'' [td ''Dublin'', td '' 10'', td ''50%''],
        Tag ''tr'' [td ''Cork'', td ''5 ''],
        Tag ''tr'' [td ''Clare'', td ''0'']]"

definition doc_2020_03_19 :: html where
  "doc_2020_03_19 =
     Tag ''[document]'' [Tag ''h2'' [NavigableString '' Cases by county ''], table_2020_03_19]"

definition rates_2020_03_19 :: "Information list" where
  "rates_2020_03_19 =
     [\<lparr>description = ''Dublin'', number = 10, rate = 200 / 3, info_type = ''Cases by county''\<rparr>,
      \<lparr>description = ''Cork'', number = 5, rate = 100 / 3, info_type = ''Cases by county''\<rparr>,
      \<lparr>description = ''Clare'', number = 0, rate = 0, info_type = ''Cases by county''\<rparr>]"

definition h2 :: "string \<Rightarrow> html" where
  "h2 s = Tag ''h2'' [NavigableString s]"

text \<open>One county record with the count 0.\<close>

definition doc_zero_total :: html where
  "doc_zero_total =
     Tag ''[document]''
       [h2 ''Cases by county'', Tag ''table'' [Tag ''tr'' [td ''Clare'', td ''0'']]]"

text \<open>A county table followed by a table of another category.\<close>

definition table_statistics :: html where
  "table_statistics =
     Tag ''table'' [Tag ''tr'' [td ''Deaths'', td ''3'', td ''1.5%'']]"

definition doc_two_tables :: html where
  "doc_two_tables =
     Tag ''[document]''
       [h2 ''Cases by county'', table_2020_03_19, h2 ''Statistics'', table_statistics]"


text \<open>A table whose first row is set in bold with \<^verbatim>\<open>b\<close> tags.\<close>

definition row_bold_b :: html where
  "row_bold_b =
     Tag ''tr'' [Tag ''td'' [Tag ''b'' [NavigableString ''County'']],
                 Tag ''td'' [Tag ''b'' [NavigableString ''Cases'']]]"

definition table_bold_b :: html where
  "table_bold_b = Tag ''table'' [row_bold_b, Tag ''tr'' [td ''Dublin'', td ''10'']]"

text \<open>A record whose rate lies half way between two thousandths.\<close>

definition deaths_0625 :: Information where
  "deaths_0625 =
     \<lparr>description = ''Deaths'', number = 3, rate = 1 / 16, info_type = ''Statistics''\<rparr>"

section \<open>Facts about the library functions\<close>

lemma findall_no_class:
  assumes "\<not> list_ex in_class s"
  shows "findall s = []"
proof -
  have d: "dropWhile (\<lambda>c. \<not> in_class c) s = []"
    using assms by (simp add: list_ex_iff)
  show ?thesis
    by (subst findall.simps) (simp only: d list.case)
qed

lemmas eval_table = parse_html_table_def find_all_def find_tag_def is_tag_def row_cells_def
  tag_bool_def get_text_def strip_def isspace_def clean_table_title_def td_def

lemmas eval_init = Information_init_def parse_number_def parse_rate_def findall.simps in_class_def
  is_digit_def subscript0_def except_IndexError_def py_int_def py_float_def decimal_def digit_value_def

lemma parse_number_empty: "parse_number [] = Inr 0"
  by (simp add: parse_number_def findall.simps subscript0_def except_IndexError_def)

lemma parse_rate_empty: "parse_rate [] = Inr 0"
  by (simp add: parse_rate_def findall.simps subscript0_def except_IndexError_def)

lemma length_extend_row: "3 \<le> length (extend_row row)"
  by (simp add: extend_row_def)


lemma find_tag_None: "find_tag name el = None \<longleftrightarrow> \<not> list_ex (is_tag name) (descendants el)"
proof -
  have "find_tag name el = None \<longleftrightarrow> filter (is_tag name) (descendants el) = []"
    by (simp add: find_tag_def find_all_def split: list.splits)
  then show ?thesis
    by (simp add: filter_empty_conv list_ex_iff)
qed

lemma foldl_rows:
  "foldl (\<lambda>result row.
            if has_strong row
            then result\<lparr>cols := cols result @ [row_cells row]\<rparr>
            else result\<lparr>data := data result @ [row_cells row]\<rparr>) acc rows =
   acc\<lparr>cols := cols acc @ map row_cells (filter has_strong rows),
       data := data acc @ map row_cells (filter (\<lambda>row. \<not> has_strong row) rows)\<rparr>"
  by (induction rows arbitrary: acc) simp_all

lemma parse_rows_foldl:
  "foldl (\<lambda>result row.
            if find_tag ''strong'' row = None
            then result\<lparr>data := data result @ [row_cells row]\<rparr>
            else result\<lparr>cols := cols result @ [row_cells row]\<rparr>) acc rows =
   acc\<lparr>cols := cols acc @ map row_cells (filter has_strong rows),
       data := data acc @ map row_cells (filter (\<lambda>row. \<not> has_strong row) rows)\<rparr>"
proof -
  have e: "(\<lambda>result row.
            if find_tag ''strong'' row = None
            then result\<lparr>data := data result @ [row_cells row]\<rparr>
            else result\<lparr>cols := cols result @ [row_cells row]\<rparr>) =
        (\<lambda>result row.
            if has_strong row
            then result\<lparr>cols := cols result @ [row_cells row]\<rparr>
            else result\<lparr>data := data result @ [row_cells row]\<rparr>)"
    by (intro ext) (simp add: find_tag_None has_strong_def)
  show ?thesis
    unfolding e by (rule foldl_rows)
qed

lemma parse_html_table_eq:
  "parse_html_table table =
     \<lparr>cols = map row_cells (filter has_strong (find_all ''tr'' table)),
      data = map row_cells (filter (\<lambda>row. \<not> has_strong row) (find_all ''tr'' table))\<rparr>"
  by (simp add: parse_html_table_def parse_rows_foldl)

lemma dropWhile_split: "\<exists>l. s = l @ dropWhile P s \<and> list_all P l"
proof
  show "s = takeWhile P s @ dropWhile P s \<and> list_all P (takeWhile P s)"
    by (simp add: list_all_iff) (meson set_takeWhileD)
qed

lemma strip_split: "\<exists>l r. s = l @ strip s @ r \<and> list_all isspace l \<and> list_all isspace r"
proof -
  obtain l where l: "s = l @ dropWhile isspace s" "list_all isspace l"
    using dropWhile_split by blast
  obtain r' where r: "rev (dropWhile isspace s) = r' @ dropWhile isspace (rev (dropWhile isspace s))"
    "list_all isspace r'"
    using dropWhile_split by blast
  have "dropWhile isspace s = strip s @ rev r'"
    using r(1) by (metis rev_append rev_rev_ident strip_def)
  then have "s = l @ strip s @ rev r'"
    using l(1) by simp
  moreover have "list_all isspace (rev r')"
    using r(2) by (simp add: list_all_iff)
  ultimately show ?thesis
    using l(2) by blast
qed

lemma rstrip_Cons:
  assumes "rev (dropWhile P (rev m)) = c # t"
  shows "\<not> P (last (c # t)) \<and> c = hd m \<and> m \<noteq> []"
proof -
  let ?r = "dropWhile P (rev m)"
  have ne: "?r \<noteq> []"
    using assms by auto
  then have "\<not> P (hd ?r)"
    by (rule hd_dropWhile)
  then have "\<not> P (last (rev ?r))"
    using ne by (simp add: last_rev)
  then have a: "\<not> P (last (c # t))"
    using assms by simp
  have "rev m = takeWhile P (rev m) @ ?r"
    by simp
  then have "m = rev ?r @ rev (takeWhile P (rev m))"
    by (metis rev_append rev_rev_ident)
  then have "m = (c # t) @ rev (takeWhile P (rev m))"
    using assms by simp
  then obtain u where "m = c # u"
    by simp
  then show ?thesis
    using a by simp
qed

lemma trimmed_strip: "trimmed (strip s)"
proof (cases "strip s")
  case Nil
  then show ?thesis by (simp add: trimmed_def)
next
  case (Cons c t)
  then have r: "rev (dropWhile isspace (rev (dropWhile isspace s))) = c # t"
    by (simp add: strip_def)
  have c1: "\<not> isspace (last (c # t))"
    using rstrip_Cons [OF r] by blast
  have c2: "c = hd (dropWhile isspace s)"
    using rstrip_Cons [OF r] by blast
  have "dropWhile isspace s \<noteq> []"
    using rstrip_Cons [OF r] by blast
  then have "\<not> isspace (hd (dropWhile isspace s))"
    by (rule hd_dropWhile)
  then have hc: "\<not> isspace c"
    using c2 by simp
  show ?thesis
    unfolding Cons trimmed_def list.case using hc c1 by blast
qed

lemma strip_trimmed_id:
  assumes "trimmed s"
  shows "strip s = s"
proof (cases s)
  case Nil
  then show ?thesis by (simp add: strip_def)
next
  case (Cons c t)
  then have a: "\<not> isspace c" and b: "\<not> isspace (last (c # t))"
    using assms by (simp_all add: trimmed_def)
  have "hd (rev (c # t)) = last (c # t)"
    by (rule hd_rev)
  then have "dropWhile isspace (rev (c # t)) = rev (c # t)"
    using b by (cases "rev (c # t)") simp_all
  then show ?thesis
    using a Cons by (simp add: strip_def)
qed

lemma strip_idem: "strip (strip s) = strip s"
  by (rule strip_trimmed_id) (rule trimmed_strip)

lemma row_cells_trimmed: "cell \<in> set (row_cells row) \<Longrightarrow> trimmed cell"
  by (auto simp: row_cells_def trimmed_strip)

section \<open>Facts about the rate loop\<close>

lemma is_county_rate [simp]: "is_county (el\<lparr>rate := x\<rparr>) = is_county el"
  by (simp add: is_county_def)

lemma is_county_new_rate [simp]: "is_county (new_rate n el) = is_county el"
  by (simp add: new_rate_def)

lemma number_new_rate [simp]: "number (new_rate n el) = number el"
  by (simp add: new_rate_def)

lemma set_rates_Inr:
  "set_rates n_cases recs = Inr result \<Longrightarrow> result = map (new_rate n_cases) recs"
proof (induction recs arbitrary: result)
  case Nil
  then show ?case by simp
next
  case (Cons el rest)
  then show ?case
    by (auto simp: new_rate_def truediv_def split: if_splits sum.splits)
qed

lemma set_rates_Inl:
  "set_rates n_cases recs = Inl e \<Longrightarrow> e = ZeroDivisionError \<and> n_cases = 0 \<and> list_ex is_county recs"
proof (induction recs)
  case Nil
  then show ?case by simp
next
  case (Cons el rest)
  then show ?case
    by (auto simp: truediv_def split: if_splits sum.splits)
qed

lemma set_rates_zero:
  "list_ex is_county recs \<Longrightarrow> set_rates 0 recs = Inl ZeroDivisionError"
proof (induction recs)
  case Nil
  then show ?case by simp
next
  case (Cons el rest)
  then show ?case
    by (auto simp: truediv_def split: sum.splits dest: set_rates_Inl)
qed

lemma set_rates_nonzero:
  "n_cases \<noteq> 0 \<Longrightarrow> set_rates n_cases recs = Inr (map (new_rate n_cases) recs)"
proof (cases "set_rates n_cases recs")
  case (Inl e)
  assume "n_cases \<noteq> 0"
  then show ?thesis
    using set_rates_Inl [OF Inl] by simp
next
  case (Inr result)
  then show ?thesis
    using set_rates_Inr [OF Inr] by simp
qed

lemma number_cases_new_rate: "number_cases (map (new_rate n) recs) = number_cases recs"
  by (induction recs) (simp_all add: number_cases_def)

lemma rates_sum:
  "sum_list (map rate (filter is_county (map (new_rate n) recs))) =
     real_of_int (number_cases recs) / real_of_int n * 100"
proof (induction recs)
  case Nil
  show ?case by (simp add: number_cases_def)
next
  case (Cons el rest)
  have nc: "number_cases (el # rest) = (if is_county el then number el else 0) + number_cases rest"
    by (simp add: number_cases_def)
  show ?case
  proof (cases "is_county el")
    case True
    then have "rate (new_rate n el) = real_of_int (number el) / real_of_int n * 100"
      by (simp add: new_rate_def)
    then show ?thesis
      using True Cons.IH nc by (simp add: add_divide_distrib distrib_right)
  next
    case False
    then show ?thesis
      using Cons.IH nc by simp
  qed
qed

lemma load_file_Inr:
  assumes "load_file doc = Inr result"
  shows "\<exists>recs. read_tables (find_all ''table'' doc) (find_all ''h2'' doc) = Inr recs
           \<and> result = map (new_rate (number_cases recs)) recs"
proof (cases "read_tables (find_all ''table'' doc) (find_all ''h2'' doc)")
  case (Inl e)
  then show ?thesis
    using assms by (simp add: load_file_def load_tables_def)
next
  case (Inr recs)
  then have "set_rates (number_cases recs) recs = Inr result"
    using assms by (simp add: load_file_def load_tables_def)
  then show ?thesis
    using Inr set_rates_Inr by blast
qed

section \<open>Facts about the pairing of tables and headings\<close>











lemma info_type_new_rate [simp]: "info_type (new_rate n el) = info_type el"
  by (simp add: new_rate_def)



section \<open>The example documents, evaluated\<close>

lemmas eval_load = load_file_def load_tables_def read_tables_def row_Information_def extend_row_def
  number_cases_def is_county_def truediv_def h2_def

lemma read_2020_03_19:
  "read_tables (find_all ''table'' doc_2020_03_19) (find_all ''h2'' doc_2020_03_19) =
     Inr [\<lparr>description = ''Dublin'', number = 10, rate = 50, info_type = ''Cases by county''\<rparr>,
          \<lparr>description = ''Cork'', number = 5, rate = 0, info_type = ''Cases by county''\<rparr>,
          \<lparr>description = ''Clare'', number = 0, rate = 0, info_type = ''Cases by county''\<rparr>]"
  by (simp add: eval_load eval_table eval_init doc_2020_03_19_def table_2020_03_19_def)

lemma load_2020_03_19: "load_file doc_2020_03_19 = Inr rates_2020_03_19"
  by (simp add: eval_load eval_table eval_init doc_2020_03_19_def table_2020_03_19_def
      rates_2020_03_19_def)

lemma format_2020_03_19:
  "map (\<lambda>el. format_3f (rate el)) rates_2020_03_19 = [''66.667'', ''33.333'', ''0.000'']"
  by (simp add: rates_2020_03_19_def format_3f_def str_nat.simps digit_char_def
      round_half_even_def Let_def)

lemma read_zero_total:
  "read_tables (find_all ''table'' doc_zero_total) (find_all ''h2'' doc_zero_total) =
     Inr [\<lparr>description = ''Clare'', number = 0, rate = 0, info_type = ''Cases by county''\<rparr>]"
  by (simp add: eval_load eval_table eval_init doc_zero_total_def)

lemma read_two_tables:
  "read_tables (find_all ''table'' doc_two_tables) (find_all ''h2'' doc_two_tables) =
     Inr [\<lparr>description = ''Dublin'', number = 10, rate = 50, info_type = ''Cases by county''\<rparr>,
          \<lparr>description = ''Cork'', number = 5, rate = 0, info_type = ''Cases by county''\<rparr>,
          \<lparr>description = ''Clare'', number = 0, rate = 0, info_type = ''Cases by county''\<rparr>,
          \<lparr>description = ''Deaths'', number = 3, rate = 3 / 2, info_type = ''Statistics''\<rparr>]"
  by (simp add: eval_load eval_table eval_init doc_two_tables_def table_2020_03_19_def
      table_statistics_def)

lemma load_two_tables:
  "load_file doc_two_tables =
     Inr (rates_2020_03_19 @
          [\<lparr>description = ''Deaths'', number = 3, rate = 3 / 2, info_type = ''Statistics''\<rparr>])"
  by (simp add: eval_load eval_table eval_init doc_two_tables_def table_2020_03_19_def
      table_statistics_def rates_2020_03_19_def)



section \<open>Facts about decimal strings\<close>

lemma digit_char_ok:
  assumes "d < 10"
  shows "is_digit (digit_char d) \<and> digit_value (digit_char d) = d"
proof -
  have "d = 0 \<or> d = 1 \<or> d = 2 \<or> d = 3 \<or> d = 4 \<or> d = 5 \<or> d = 6 \<or> d = 7 \<or> d = 8 \<or> d = 9"
    using assms by arith
  then show ?thesis
    by (elim disjE) (simp_all add: digit_char_def is_digit_def digit_value_def)
qed

lemma str_nat_digits: "list_all is_digit (str_nat n) \<and> str_nat n \<noteq> []"
proof (induction n rule: str_nat.induct)
  case (1 n)
  show ?case
  proof (cases "n < 10")
    case True
    then show ?thesis
      by (simp add: str_nat.simps [of n] digit_char_ok)
  next
    case False
    then show ?thesis
      using "1.IH" by (simp add: str_nat.simps [of n] digit_char_ok)
  qed
qed

lemma decimal_snoc: "decimal (xs @ [c]) = 10 * decimal xs + digit_value c"
  by (simp add: decimal_def)

lemma decimal_str_nat: "decimal (str_nat n) = n"
proof (induction n rule: str_nat.induct)
  case (1 n)
  show ?case
  proof (cases "n < 10")
    case True
    then show ?thesis
      by (simp add: str_nat.simps [of n] decimal_def digit_char_ok)
  next
    case False
    then have "decimal (str_nat (n div 10)) = n div 10"
      using "1.IH" by simp
    then show ?thesis
      using False by (simp add: str_nat.simps [of n] decimal_snoc digit_char_ok)
  qed
qed

lemma findall_Nil: "findall [] = []"
  by (simp add: findall.simps)

lemma findall_whole:
  assumes "s \<noteq> []" and "list_all in_class s"
  shows "findall s = [s]"
proof -
  obtain c t where s: "s = c # t"
    using assms(1) by (cases s) auto
  have all: "\<forall>x \<in> set s. in_class x"
    using assms(2) by (simp add: list_all_iff)
  then have c: "in_class c"
    using s by simp
  have d: "dropWhile (\<lambda>c. \<not> in_class c) s = c # t"
    using c s by simp
  have tk: "takeWhile in_class (c # t) = c # t"
    using all s by (metis takeWhile_eq_all_conv)
  have dr: "dropWhile in_class (c # t) = []"
    using all s by (metis dropWhile_eq_Nil_conv)
  show ?thesis
    by (subst findall.simps) (simp only: d list.case tk dr findall_Nil, simp only: s)
qed

lemma is_digit_in_class: "is_digit c \<Longrightarrow> in_class c"
  by (simp add: in_class_def)

lemma parse_number_digits:
  assumes "s \<noteq> []" and "list_all is_digit s"
  shows "parse_number s = Inr (int (decimal s))"
proof -
  have "list_all in_class s"
    using assms(2) by (simp add: list_all_iff is_digit_in_class)
  then have "findall s = [s]"
    using assms(1) by (rule findall_whole [rotated])
  then show ?thesis
    using assms by (simp add: parse_number_def subscript0_def py_int_def except_IndexError_def)
qed

lemma parse_number_py_str:
  assumes "0 \<le> i"
  shows "parse_number (py_str i) = Inr i"
proof -
  have "parse_number (str_nat (nat i)) = Inr (int (decimal (str_nat (nat i))))"
    using str_nat_digits [of "nat i"] by (intro parse_number_digits) simp_all
  then show ?thesis
    using assms by (simp add: py_str_def decimal_str_nat)
qed

lemma not_digit_point: "\<not> is_digit CHR ''.''"
  by (simp add: is_digit_def)

lemma py_float_point:
  assumes "list_all is_digit ds" and "ds \<noteq> []" and "list_all is_digit fs"
  shows "py_float (ds @ ''.'' @ fs) = Inr (real (decimal ds) + real (decimal fs) / 10 ^ length fs)"
proof -
  have all: "\<forall>x \<in> set ds. is_digit x"
    using assms(1) by (simp add: list_all_iff)
  have tk: "takeWhile is_digit (ds @ CHR ''.'' # fs) = ds"
    using all not_digit_point by (simp add: takeWhile_append2)
  have dr: "dropWhile is_digit (ds @ CHR ''.'' # fs) = CHR ''.'' # fs"
    using all not_digit_point by (simp add: dropWhile_append2)
  show ?thesis
    using assms(2,3) by (simp add: py_float_def tk dr)
qed

lemma parse_rate_point:
  assumes "list_all is_digit ds" and "ds \<noteq> []" and "list_all is_digit fs"
  shows "parse_rate (ds @ ''.'' @ fs) = Inr (real (decimal ds) + real (decimal fs) / 10 ^ length fs)"
proof -
  have "list_all in_class (ds @ ''.'' @ fs)"
    using assms(1,3) by (simp add: list_all_iff is_digit_in_class) (auto simp: in_class_def)
  moreover have "ds @ ''.'' @ fs \<noteq> []"
    by simp
  ultimately have "findall (ds @ ''.'' @ fs) = [ds @ ''.'' @ fs]"
    by (rule findall_whole [rotated])
  then show ?thesis
    using py_float_point [OF assms]
    by (simp add: parse_rate_def subscript0_def except_IndexError_def)
qed

lemma decimal_three:
  "decimal [digit_char (m div 100 mod 10), digit_char (m div 10 mod 10), digit_char (m mod 10)] =
     m mod 1000"
proof -
  have "decimal [digit_char (m div 100 mod 10), digit_char (m div 10 mod 10), digit_char (m mod 10)] =
      100 * (m div 100 mod 10) + 10 * (m div 10 mod 10) + m mod 10"
    by (simp add: decimal_def digit_char_ok)
  also have "\<dots> = 100 * (m div 100 mod 10) + m mod 100"
    using mod_mult2_eq [of m 10 10] by simp
  also have "\<dots> = m mod 1000"
    using mod_mult2_eq [of m 100 10] by simp
  finally show ?thesis .
qed

lemma format_3f_shape:
  assumes "0 \<le> x"
  shows "\<exists>ds fs. format_3f x = ds @ ''.'' @ fs \<and> ds \<noteq> [] \<and> list_all is_digit ds
           \<and> list_all is_digit fs \<and> length fs = 3"
proof -
  define m where "m = nat (round_half_even (x * 1000))"
  define fs where
    "fs = [digit_char (m div 100 mod 10), digit_char (m div 10 mod 10), digit_char (m mod 10)]"
  have f: "format_3f x = str_nat (m div 1000) @ ''.'' @ fs"
    using assms by (simp add: format_3f_def m_def fs_def Let_def)
  have d3: "list_all is_digit fs \<and> length fs = 3"
    by (simp add: fs_def digit_char_ok)
  show ?thesis
    using f d3 str_nat_digits [of "m div 1000"] by blast
qed

lemma Information_init_parts:
  assumes "0 \<le> i" and "ds \<noteq> []" and "list_all is_digit ds" and "list_all is_digit fs"
  shows "Information_init descr (py_str i) (ds @ ''.'' @ fs) ty =
     Inr \<lparr>description = descr, number = i,
          rate = real (decimal ds) + real (decimal fs) / 10 ^ length fs, info_type = ty\<rparr>"
  using parse_number_py_str [OF assms(1)] parse_rate_point [OF assms(3) assms(2) assms(4)]
  by (simp add: Information_init_def)

lemma parse_number_nonneg: "parse_number txt = Inr n \<Longrightarrow> 0 \<le> n"
  by (auto simp: parse_number_def subscript0_def except_IndexError_def py_int_def
      split: list.splits sum.splits error.splits if_splits)

lemma py_float_nonneg: "py_float s = Inr r \<Longrightarrow> 0 \<le> r"
  by (auto simp: py_float_def Let_def split: list.splits if_splits)

lemma parse_rate_nonneg: "parse_rate txt = Inr r \<Longrightarrow> 0 \<le> r"
  by (auto simp: parse_rate_def subscript0_def except_IndexError_def
      split: list.splits sum.splits error.splits dest: py_float_nonneg)

lemma Information_init_nonneg: "Information_init d n rt ty = Inr el \<Longrightarrow> nonneg el"
  by (auto simp: Information_init_def nonneg_def split: sum.splits
      dest: parse_number_nonneg parse_rate_nonneg)

lemma append_rows_nonneg:
  "append_rows acc rows title = Inr res \<Longrightarrow> list_all nonneg acc \<Longrightarrow> list_all nonneg res"
proof (induction rows arbitrary: acc)
  case Nil
  then show ?case by simp
next
  case (Cons row rows)
  then show ?case
    by (auto simp: row_Information_def Let_def split: sum.splits dest: Information_init_nonneg)
qed

lemma append_tables_nonneg:
  "append_tables acc pairs = Inr res \<Longrightarrow> list_all nonneg acc \<Longrightarrow> list_all nonneg res"
proof (induction pairs arbitrary: acc)
  case Nil
  then show ?case by simp
next
  case (Cons pair pairs)
  obtain pt title where pair: "pair = (pt, title)"
    by (cases pair)
  show ?case
    using Cons.prems Cons.IH unfolding pair
    by (auto split: sum.splits dest: append_rows_nonneg)
qed

lemma number_cases_nonneg: "list_all nonneg recs \<Longrightarrow> 0 \<le> number_cases recs"
  by (induction recs) (simp_all add: number_cases_def nonneg_def)

lemma new_rate_nonneg: "0 \<le> n \<Longrightarrow> nonneg el \<Longrightarrow> nonneg (new_rate n el)"
  by (simp add: new_rate_def nonneg_def)

lemma load_file_nonneg:
  assumes "load_file doc = Inr result" and "el \<in> set result"
  shows "nonneg el"
proof -
  obtain recs where recs: "read_tables (find_all ''table'' doc) (find_all ''h2'' doc) = Inr recs"
    and result: "result = map (new_rate (number_cases recs)) recs"
    using load_file_Inr [OF assms(1)] by blast
  have nn: "list_all nonneg recs"
    using recs append_tables_nonneg [of "[]"] by (simp add: read_tables_def)
  then have "0 \<le> number_cases recs"
    by (rule number_cases_nonneg)
  then show ?thesis
    using nn assms(2) result by (auto simp: list_all_iff new_rate_nonneg)
qed

lemma str_2020_03_19:
  "map Information_str rates_2020_03_19 =
     [''Cases by county - Dublin: 10 (66.667%)'',
      ''Cases by county - Cork: 5 (33.333%)'',
      ''Cases by county - Clare: 0 (0.000%)'']"
  by (simp add: rates_2020_03_19_def Information_str_def py_str_def format_3f_def str_nat.simps
      digit_char_def round_half_even_def Let_def)

lemma init_deaths_0625:
  "Information_init ''Deaths'' ''3'' ''0.0625'' ''Statistics'' = Inr deaths_0625"
  by (simp add: eval_init deaths_0625_def)

lemma str_deaths_0625: "Information_str deaths_0625 = ''Statistics - Deaths: 3 (0.062%)''"
  by (simp add: deaths_0625_def Information_str_def py_str_def format_3f_def str_nat.simps
      digit_char_def round_half_even_def Let_def)

lemma parse_no_class:
  assumes "\<not> list_ex in_class txt"
  shows "parse_number txt = Inr 0 \<and> parse_rate txt = Inr 0"
  using findall_no_class [OF assms]
  by (simp add: parse_number_def parse_rate_def subscript0_def except_IndexError_def)

lemma Information_init_digits:
  assumes "ds \<noteq> []" and "list_all is_digit ds"
  shows "Information_init descr ds [] ty =
     Inr \<lparr>description = descr, number = int (decimal ds), rate = 0, info_type = ty\<rparr>"
  by (simp add: Information_init_def parse_number_digits [OF assms] parse_rate_empty)

section \<open>The constructor\<close>

text \<open>
  Claim C1. A count text (or rate text) without a digit gives 0 and no exception.
  The program does not keep this: a text without digits that holds a point or a comma,
  such as \<^verbatim>\<open>n.a.\<close>, matches the pattern, and \<^verbatim>\<open>int\<close> (or \<^verbatim>\<open>float\<close>) of the match
  raises \<^verbatim>\<open>ValueError\<close>, which the \<^verbatim>\<open>except IndexError\<close> clause lets through.
\<close>

theorem C1_separator_only_raises:
  "\<not> list_ex is_digit ''n.a.'' \<and> Information_init descr ''n.a.'' [] ty = Inl ValueError
   \<and> Information_init descr [] ''n.a.'' ty = Inl ValueError"
  by (simp add: eval_init)

text \<open>
  Claim C4. A count text with thousands separators, such as \<^verbatim>\<open>1,234\<close>, gives the
  number it denotes. The program does not keep this: the match \<^verbatim>\<open>1,234\<close> is handed
  to \<^verbatim>\<open>int\<close> as it is, which raises \<^verbatim>\<open>ValueError\<close>.
\<close>

theorem C4_thousands_separator_raises:
  "Information_init descr ''1,234'' [] ty = Inl ValueError"
  by (simp add: eval_init)

section \<open>Rows of a table\<close>

text \<open>
  Claim C6. A data row with fewer than three cells is extended with empty strings to
  exactly three cells before the record is built; an empty count or rate text gives 0.
  A row of two cells \<open>[d, c]\<close> gives the description \<open>d\<close> (empty when \<open>d\<close> is), the
  count read from the second cell \<open>c\<close>, and the rate 0.
\<close>

theorem C6_short_row_padded:
  assumes "length row < 3"
  shows "length (extend_row row) = 3
     \<and> take (length row) (extend_row row) = row
     \<and> drop (length row) (extend_row row) = replicate (3 - length row) []
     \<and> row_Information row table_title =
         Information_init (extend_row row ! 0) (extend_row row ! 1) (extend_row row ! 2) table_title
     \<and> append_rows result (row # rows) table_title =
         (case Information_init (extend_row row ! 0) (extend_row row ! 1) (extend_row row ! 2) table_title of
            Inl e \<Rightarrow> Inl e
          | Inr info \<Rightarrow> append_rows (result @ [info]) rows table_title)
     \<and> parse_number [] = Inr 0 \<and> parse_rate [] = Inr 0
     \<and> (\<forall>d c. row = [d, c] \<longrightarrow>
          row_Information row table_title =
            (case parse_number c of
               Inl e \<Rightarrow> Inl e
             | Inr n \<Rightarrow> Inr \<lparr>description = d, number = n, rate = 0, info_type = table_title\<rparr>))
     \<and> (\<forall>d. row = [d] \<longrightarrow>
          row_Information row table_title =
            Inr \<lparr>description = d, number = 0, rate = 0, info_type = table_title\<rparr>)
     \<and> (row = [] \<longrightarrow>
          row_Information row table_title =
            Inr \<lparr>description = [], number = 0, rate = 0, info_type = table_title\<rparr>)"
proof -
  have two: "row_Information [d, c] table_title =
      (case parse_number c of
         Inl e \<Rightarrow> Inl e
       | Inr n \<Rightarrow> Inr \<lparr>description = d, number = n, rate = 0, info_type = table_title\<rparr>)" for d c
    by (simp add: row_Information_def extend_row_def Information_init_def parse_rate_empty
        numeral_3_eq_3 split: sum.splits)
  have one: "row_Information [d] table_title =
      Inr \<lparr>description = d, number = 0, rate = 0, info_type = table_title\<rparr>" for d
    by (simp add: row_Information_def extend_row_def Information_init_def parse_rate_empty
        parse_number_empty numeral_3_eq_3)
  have none: "row_Information [] table_title =
      Inr \<lparr>description = [], number = 0, rate = 0, info_type = table_title\<rparr>"
    by (simp add: row_Information_def extend_row_def Information_init_def parse_rate_empty
        parse_number_empty numeral_3_eq_3)
  have len: "length (extend_row row) = 3"
    using assms by (simp add: extend_row_def)
  have tk: "take (length row) (extend_row row) = row"
    by (simp add: extend_row_def)
  have dr: "drop (length row) (extend_row row) = replicate (3 - length row) []"
    by (simp add: extend_row_def)
  have ri: "row_Information row table_title =
      Information_init (extend_row row ! 0) (extend_row row ! 1) (extend_row row ! 2) table_title"
    by (simp add: row_Information_def Let_def)
  have ar: "append_rows result (row # rows) table_title =
         (case Information_init (extend_row row ! 0) (extend_row row ! 1) (extend_row row ! 2) table_title of
            Inl e \<Rightarrow> Inl e
          | Inr info \<Rightarrow> append_rows (result @ [info]) rows table_title)"
    by (simp add: row_Information_def Let_def)
  show ?thesis
    using len tk dr ri ar two one none parse_number_empty parse_rate_empty
    by blast
qed

theorem C6_short_row_padded_witness:
  "length [[], ''7''] < 3
   \<and> extend_row [[], ''7''] = [[], ''7'', []]
   \<and> row_Information [[], ''7''] ''Statistics'' =
       Inr \<lparr>description = [], number = 7, rate = 0, info_type = ''Statistics''\<rparr>"
  using C6_short_row_padded [of "[[], ''7'']" "''Statistics''"]
  by (simp add: eval_init extend_row_def)



section \<open>Header rows and data rows\<close>

text \<open>
  Claim C7, as amended. \<^verbatim>\<open>parse_html_table\<close> puts a row under \<^verbatim>\<open>cols\<close> if and only if a
  \<^verbatim>\<open>strong\<close> tag stands anywhere below the row, and under \<^verbatim>\<open>data\<close> otherwise, both in
  document order; every cell of the result is the text of a \<^verbatim>\<open>td\<close> with the white space
  at both ends removed. Other bold markup, such as a \<^verbatim>\<open>b\<close> tag, does not make a header
  row.
\<close>

theorem C7_header_rows_and_trimmed_cells:
  "cols (parse_html_table table) =
     map row_cells (filter (\<lambda>row. list_ex (is_tag ''strong'') (descendants row)) (find_all ''tr'' table))
   \<and> data (parse_html_table table) =
     map row_cells (filter (\<lambda>row. \<not> list_ex (is_tag ''strong'') (descendants row)) (find_all ''tr'' table))
   \<and> (\<forall>row. row_cells row = map (\<lambda>el. strip (get_text el)) (find_all ''td'' row))
   \<and> (\<forall>cells \<in> set (cols (parse_html_table table) @ data (parse_html_table table)).
        \<forall>cell \<in> set cells. trimmed cell \<and> strip cell = cell)
   \<and> (\<forall>s. trimmed (strip s) \<and> (\<exists>l r. s = l @ strip s @ r \<and> list_all isspace l \<and> list_all isspace r))"
proof -
  have hs: "has_strong = (\<lambda>row. list_ex (is_tag ''strong'') (descendants row))"
    by (rule ext) (simp add: has_strong_def)
  have c: "cols (parse_html_table table) =
     map row_cells (filter (\<lambda>row. list_ex (is_tag ''strong'') (descendants row)) (find_all ''tr'' table))"
    by (simp add: parse_html_table_eq hs)
  have d: "data (parse_html_table table) =
     map row_cells (filter (\<lambda>row. \<not> list_ex (is_tag ''strong'') (descendants row)) (find_all ''tr'' table))"
    by (simp add: parse_html_table_eq hs)
  have r: "row_cells row = map (\<lambda>el. strip (get_text el)) (find_all ''td'' row)" for row
    by (simp add: row_cells_def tag_bool_def)
  have t: "trimmed cell \<and> strip cell = cell"
    if cs: "cells \<in> set (cols (parse_html_table table) @ data (parse_html_table table))"
      and cl: "cell \<in> set cells" for cells cell
  proof -
    have "cells \<in> row_cells ` set (find_all ''tr'' table)"
      using cs c d by auto
    then obtain row where "cells = row_cells row"
      by auto
    then obtain el where "cell = strip (get_text el)"
      using cl by (auto simp: row_cells_def)
    then show ?thesis
      by (simp add: trimmed_strip strip_idem)
  qed
  show ?thesis
    using c d r t trimmed_strip strip_split by blast
qed

theorem C7_header_rows_and_trimmed_cells_witness:
  "parse_html_table table_2020_03_19 =
     \<lparr>cols = [[''County'', ''Cases'']],
      data = [[''Dublin'', ''10'', ''50%''], [''Cork'', ''5''], [''Clare'', ''0'']]\<rparr>
   \<and> list_all (list_all trimmed) (data (parse_html_table table_2020_03_19))"
  using C7_header_rows_and_trimmed_cells [of table_2020_03_19]
  by (simp add: eval_table table_2020_03_19_def trimmed_def)

text \<open>
  Claim C7, as first stated, makes every row with an emphasized (bold) element a header
  row. It fails for a row whose bold cells are marked with \<^verbatim>\<open>b\<close>: the row holds a bold
  element and is a data row.
\<close>

theorem C7_bold_b_row_counterexample:
  "find_all ''tr'' table_bold_b = [row_bold_b, Tag ''tr'' [td ''Dublin'', td ''10'']]
   \<and> list_ex (is_tag ''b'') (descendants row_bold_b)
   \<and> cols (parse_html_table table_bold_b) = []
   \<and> data (parse_html_table table_bold_b) = [[''County'', ''Cases''], [''Dublin'', ''10'']]"
  by (simp add: eval_table table_bold_b_def row_bold_b_def)

section \<open>The rates of the counties\<close>

text \<open>
  Claim C2. In every snapshot that \<^verbatim>\<open>load_file\<close> returns, each record whose category
  contains \<^verbatim>\<open>county\<close> has the rate count / (sum of the counts of all such records) * 100,
  whatever rate the source gave; when that sum is above 0 these rates add up to 100.
  (Rates are real numbers here, so the sum is exactly 100.) The counts Dublin 10, Cork 5,
  Clare 0 give the rates 200/3, 100/3 and 0, shown as 66.667, 33.333 and 0.000.
\<close>

theorem C2_county_rates:
  assumes "load_file doc = Inr result"
  shows "(\<forall>el \<in> set result. is_county el \<longrightarrow>
            rate el = real_of_int (number el) / real_of_int (number_cases result) * 100)
     \<and> (0 < number_cases result \<longrightarrow> sum_list (map rate (filter is_county result)) = 100)
     \<and> (\<exists>recs. read_tables (find_all ''table'' doc) (find_all ''h2'' doc) = Inr recs
          \<and> number_cases result = number_cases recs
          \<and> result =
              map (\<lambda>el. if is_county el
                         then el\<lparr>rate := real_of_int (number el) / real_of_int (number_cases recs) * 100\<rparr>
                         else el) recs)"
proof -
  obtain recs where recs: "read_tables (find_all ''table'' doc) (find_all ''h2'' doc) = Inr recs"
    and result: "result = map (new_rate (number_cases recs)) recs"
    using load_file_Inr [OF assms] by blast
  have nc: "number_cases result = number_cases recs"
    by (simp add: result number_cases_new_rate)
  have a: "rate el = real_of_int (number el) / real_of_int (number_cases result) * 100"
    if mem: "el \<in> set result" and cty: "is_county el" for el
  proof -
    obtain el0 where "el = new_rate (number_cases recs) el0"
      using mem result by auto
    then show ?thesis
      using cty nc by (simp add: new_rate_def split: if_splits)
  qed
  have b: "sum_list (map rate (filter is_county result)) = 100" if pos: "0 < number_cases result"
  proof -
    have "sum_list (map rate (filter is_county result)) =
        real_of_int (number_cases recs) / real_of_int (number_cases recs) * 100"
      by (simp only: result rates_sum)
    then show ?thesis
      using pos nc by simp
  qed
  have c: "result =
      map (\<lambda>el. if is_county el
                 then el\<lparr>rate := real_of_int (number el) / real_of_int (number_cases recs) * 100\<rparr>
                 else el) recs"
    using result by (simp add: new_rate_def [abs_def])
  show ?thesis
    using a b c recs nc by blast
qed

theorem C2_county_rates_witness:
  "load_file doc_2020_03_19 = Inr rates_2020_03_19
   \<and> number_cases rates_2020_03_19 = 15
   \<and> sum_list (map rate (filter is_county rates_2020_03_19)) = 100
   \<and> map rate rates_2020_03_19 = [200 / 3, 100 / 3, 0]
   \<and> map (\<lambda>el. format_3f (rate el)) rates_2020_03_19 = [''66.667'', ''33.333'', ''0.000'']"
proof -
  have nc: "number_cases rates_2020_03_19 = 15"
    by (simp add: rates_2020_03_19_def number_cases_def is_county_def)
  have "sum_list (map rate (filter is_county rates_2020_03_19)) = 100"
    using C2_county_rates [OF load_2020_03_19] nc by simp
  moreover have "map rate rates_2020_03_19 = [200 / 3, 100 / 3, 0]"
    by (simp add: rates_2020_03_19_def)
  ultimately show ?thesis
    using load_2020_03_19 nc format_2020_03_19 by simp
qed

text \<open>
  Claim C3. There are documents for which the rate loop divides by zero: when the
  records read from the document include one whose category contains \<^verbatim>\<open>county\<close> and the
  counts of all such records add up to 0, \<^verbatim>\<open>load_file\<close> raises \<^verbatim>\<open>ZeroDivisionError\<close>.
\<close>

theorem C3_zero_total_raises:
  assumes "read_tables (find_all ''table'' doc) (find_all ''h2'' doc) = Inr recs"
    and "list_ex is_county recs"
    and "number_cases recs = 0"
  shows "load_file doc = Inl ZeroDivisionError"
  using assms by (simp add: load_file_def load_tables_def set_rates_zero)

theorem C3_zero_total_raises_witness:
  "read_tables (find_all ''table'' doc_zero_total) (find_all ''h2'' doc_zero_total) =
     Inr [\<lparr>description = ''Clare'', number = 0, rate = 0, info_type = ''Cases by county''\<rparr>]
   \<and> list_ex is_county
       [\<lparr>description = ''Clare'', number = 0, rate = 0, info_type = ''Cases by county''\<rparr>]
   \<and> number_cases
       [\<lparr>description = ''Clare'', number = 0, rate = 0, info_type = ''Cases by county''\<rparr>] = 0
   \<and> load_file doc_zero_total = Inl ZeroDivisionError"
proof -
  let ?recs = "[\<lparr>description = ''Clare'', number = 0, rate = 0, info_type = ''Cases by county''\<rparr>]"
  have a: "list_ex is_county ?recs"
    by (simp add: is_county_def)
  have b: "number_cases ?recs = 0"
    by (simp add: number_cases_def)
  show ?thesis
    using C3_zero_total_raises [OF read_zero_total a b] read_zero_total a b by simp
qed

text \<open>
  Claim C8. The rate loop, run once by \<^verbatim>\<open>load_file\<close>, is the only change made to a
  record after its construction: it keeps the number and order of the records, changes
  nothing but the rate of the records whose category contains \<^verbatim>\<open>county\<close>, and leaves
  every other record as it was.
\<close>

theorem C8_only_county_rates_change:
  assumes "read_tables (find_all ''table'' doc) (find_all ''h2'' doc) = Inr recs"
    and "load_file doc = Inr result"
  shows "length result = length recs
     \<and> (\<forall>i. i < length recs \<longrightarrow>
          description (result ! i) = description (recs ! i)
          \<and> number (result ! i) = number (recs ! i)
          \<and> info_type (result ! i) = info_type (recs ! i)
          \<and> (result ! i)\<lparr>rate := rate (recs ! i)\<rparr> = recs ! i
          \<and> (\<not> is_county (recs ! i) \<longrightarrow> result ! i = recs ! i))"
proof -
  have result: "result = map (new_rate (number_cases recs)) recs"
    using load_file_Inr [OF assms(2)] assms(1) by auto
  have "description (new_rate n el) = description el \<and> number (new_rate n el) = number el
      \<and> info_type (new_rate n el) = info_type el \<and> (new_rate n el)\<lparr>rate := rate el\<rparr> = el
      \<and> (\<not> is_county el \<longrightarrow> new_rate n el = el)" for n el
    by (simp add: new_rate_def)
  then show ?thesis
    by (simp add: result)
qed

theorem C8_only_county_rates_change_witness:
  "load_file doc_two_tables =
     Inr (rates_2020_03_19 @
          [\<lparr>description = ''Deaths'', number = 3, rate = 3 / 2, info_type = ''Statistics''\<rparr>])
   \<and> (rates_2020_03_19 @
          [\<lparr>description = ''Deaths'', number = 3, rate = 3 / 2, info_type = ''Statistics''\<rparr>]) ! 3 =
       \<lparr>description = ''Deaths'', number = 3, rate = 3 / 2, info_type = ''Statistics''\<rparr>
   \<and> number ((rates_2020_03_19 @
          [\<lparr>description = ''Deaths'', number = 3, rate = 3 / 2, info_type = ''Statistics''\<rparr>]) ! 0) = 10"
  using C8_only_county_rates_change [OF read_two_tables load_two_tables] load_two_tables
  by (simp add: rates_2020_03_19_def)

section \<open>Tables and headings\<close>



section \<open>The display string\<close>

text \<open>
  Claim C9. For every record the program builds (by the constructor, or as an element of
  what \<^verbatim>\<open>load_file\<close> returns), the display string is made of category, description,
  count and rate in the format \<^verbatim>\<open>{} - {}: {} ({:.3f}%)\<close>, and the constructor applied to
  the description, count and rate parts of that string gives, without an exception, a
  record with the same count. The count read back does not depend on the digits of the
  rate part: it is the same for every rate text made of digits, a point and digits.
\<close>

theorem C9_count_round_trip:
  assumes "Information_init d n rt ty = Inr self \<or> (load_file doc = Inr result \<and> self \<in> set result)"
  shows "Information_str self =
       info_type self @ '' - '' @ description self @ '': '' @ py_str (number self) @
       '' ('' @ format_3f (rate self) @ ''%)''
     \<and> (\<exists>r. Information_init (description self) (py_str (number self)) (format_3f (rate self))
              (info_type self) = Inr r
            \<and> number r = number self \<and> description r = description self
            \<and> info_type r = info_type self)
     \<and> (\<forall>ds fs. ds \<noteq> [] \<and> list_all is_digit ds \<and> list_all is_digit fs \<longrightarrow>
            Information_init (description self) (py_str (number self)) (ds @ ''.'' @ fs)
              (info_type self) =
            Inr \<lparr>description = description self, number = number self,
                 rate = real (decimal ds) + real (decimal fs) / 10 ^ length fs,
                 info_type = info_type self\<rparr>)"
proof -
  have "nonneg self"
    using assms Information_init_nonneg load_file_nonneg by blast
  then have n: "0 \<le> number self" and r: "0 \<le> rate self"
    by (simp_all add: nonneg_def)
  have a: "Information_str self =
       info_type self @ '' - '' @ description self @ '': '' @ py_str (number self) @
       '' ('' @ format_3f (rate self) @ ''%)''"
    by (simp add: Information_str_def)
  have c: "Information_init (description self) (py_str (number self)) (ds @ ''.'' @ fs)
              (info_type self) =
            Inr \<lparr>description = description self, number = number self,
                 rate = real (decimal ds) + real (decimal fs) / 10 ^ length fs,
                 info_type = info_type self\<rparr>"
    if "ds \<noteq> []" and "list_all is_digit ds" and "list_all is_digit fs" for ds fs
    using that by (intro Information_init_parts [OF n])
  obtain ds fs where f: "format_3f (rate self) = ds @ ''.'' @ fs" and ds: "ds \<noteq> []"
    and dd: "list_all is_digit ds" and df: "list_all is_digit fs"
    using format_3f_shape [OF r] by blast
  have b: "\<exists>r. Information_init (description self) (py_str (number self)) (format_3f (rate self))
              (info_type self) = Inr r
            \<and> number r = number self \<and> description r = description self
            \<and> info_type r = info_type self"
    unfolding f using c [OF ds dd df] by simp
  show ?thesis
    using a b c by blast
qed

theorem C9_count_round_trip_witness:
  "Information_init ''Deaths'' ''3'' ''0.0625'' ''Statistics'' = Inr deaths_0625
   \<and> Information_str deaths_0625 = ''Statistics - Deaths: 3 (0.062%)''
   \<and> Information_init ''Deaths'' ''3'' ''0.062'' ''Statistics'' =
       Inr \<lparr>description = ''Deaths'', number = 3, rate = 62 / 1000, info_type = ''Statistics''\<rparr>"
proof -
  have h: "Information_init ''Deaths'' ''3'' ''0.0625'' ''Statistics'' = Inr deaths_0625
      \<or> (load_file doc_2020_03_19 = Inr rates_2020_03_19 \<and> deaths_0625 \<in> set rates_2020_03_19)"
    using init_deaths_0625 by simp
  have p: "py_str (number deaths_0625) = ''3''"
    by (simp add: deaths_0625_def py_str_def str_nat.simps digit_char_def)
  have dg: "''0'' \<noteq> [] \<and> list_all is_digit ''0'' \<and> list_all is_digit ''062''"
    by (simp add: is_digit_def)
  have "Information_init (description deaths_0625) (py_str (number deaths_0625))
          (''0'' @ ''.'' @ ''062'') (info_type deaths_0625) =
        Inr \<lparr>description = description deaths_0625, number = number deaths_0625,
             rate = real (decimal ''0'') + real (decimal ''062'') / 10 ^ length ''062'',
             info_type = info_type deaths_0625\<rparr>"
    using C9_count_round_trip [OF h] dg by blast
  then have "Information_init ''Deaths'' ''3'' ''0.062'' ''Statistics'' =
       Inr \<lparr>description = ''Deaths'', number = 3, rate = 62 / 1000, info_type = ''Statistics''\<rparr>"
    unfolding p by (simp add: deaths_0625_def decimal_def digit_value_def)
  then show ?thesis
    using init_deaths_0625 str_deaths_0625 by simp
qed

end
